theory Spec2Isabelle
  imports Complex_Main
begin

section \<open>The gallery's Reflection component: data model\<close>

text \<open>
  The model follows \<^verbatim>\<open>src/components/gallery/Reflection.tsx\<close>. JavaScript has one
  number type; every number of the component (indices, sizes, scales, offsets) is a
  \<^typ>\<open>real\<close> here, so \<^verbatim>\<open>===\<close> on numbers is equality and \<^verbatim>\<open>Math.max\<close>,
  \<^verbatim>\<open>Math.abs\<close> and \<^verbatim>\<open>Math.sign\<close> are \<^const>\<open>max\<close>, \<^const>\<open>abs\<close> and
  \<^const>\<open>sgn\<close>. Rounding, infinities and NaN of IEEE doubles are outside the model.
\<close>

datatype SwipeDirection = UP | DOWN | LEFT | RIGHT

text \<open>
  The two timing configurations of the file: the default one of \<^verbatim>\<open>withTiming(v)\<close> and
  \<^verbatim>\<open>config = { duration: 300, easing: Easing.linear }\<close>.
\<close>

datatype timing_config = default_config | config

text \<open>
  The completion callbacks handed to \<^verbatim>\<open>withTiming\<close>, each with the values its closure
  captures: \<^verbatim>\<open>toScroll !== current\<close> in snapToScrollPosition, \<^verbatim>\<open>toIndex\<close> in onSwipe,
  nothing for the pull release of pan.onEnd.
\<close>

datatype callback = no_callback | snap_callback bool | swipe_callback real | pull_callback

datatype animation =
    Timing real timing_config callback
  | Decay real real real

text \<open>
  A shared value holds its current number and the animation running on it, if any.
  What is written to \<^verbatim>\<open>.value\<close> is a plain number or an animation object.
\<close>

record shared =
  val :: real
  running :: "animation option"

datatype assigned = Plain real | Anim animation

fun assign :: "assigned \<Rightarrow> shared \<Rightarrow> shared" where
  "assign (Plain v) sv = \<lparr>val = v, running = None\<rparr>"
| "assign (Anim a) sv = sv\<lparr>running := Some a\<rparr>"

definition cancelAnimation :: "shared \<Rightarrow> shared" where
  "cancelAnimation sv = sv\<lparr>running := None\<rparr>"

definition withTiming :: "real \<Rightarrow> assigned" where
  "withTiming toValue = Anim (Timing toValue default_config no_callback)"

definition withTimingCb :: "real \<Rightarrow> timing_config \<Rightarrow> callback \<Rightarrow> assigned" where
  "withTimingCb toValue cfg cb = Anim (Timing toValue cfg cb)"

text \<open>\<^verbatim>\<open>withDecay({ velocity, clamp: [lo, hi] })\<close>.\<close>

definition withDecay :: "real \<Rightarrow> real \<times> real \<Rightarrow> assigned" where
  "withDecay velocity cl = Anim (Decay velocity (fst cl) (snd cl))"

record pan_event =
  velocityX :: real
  velocityY :: real
  translationX :: real
  translationY :: real
  absoluteX :: real
  absoluteY :: real

record tap_event =
  tap_x :: real
  tap_y :: real

text \<open>Calls of the user's callbacks, in the order the component makes them.\<close>

datatype js_call =
    PanStartCall pan_event
  | PanEndCall pan_event
  | UserSwipeCall SwipeDirection

text \<open>
  The props of the component. An optional callback prop is the flag "it was passed".
  \<^verbatim>\<open>length\<close> is \<open>length_prop\<close>; \<^verbatim>\<open>maxScale\<close> and \<^verbatim>\<open>itemSize\<close> are shared values the
  component only reads.
\<close>

record props =
  length_prop :: real
  maxScale :: real
  itemSize :: real
  vertical :: bool
  onPanStart :: bool
  onPanEnd :: bool
  onUserSwipe :: bool
  onVerticalPull :: bool

text \<open>
  The shared state: the values of GalleryContext and the ones the component creates.
  A vector \<^verbatim>\<open>v\<close> of two shared values is the pair of fields \<open>v_x\<close>, \<open>v_y\<close>. The vectors
  \<^verbatim>\<open>origin\<close> and \<^verbatim>\<open>delta\<close> and \<^verbatim>\<open>scaleOffset\<close> are only handed to usePinchCommons and
  are left out.
\<close>

record state =
  activeIndex :: real
  fetchIndex :: real
  scroll :: shared
  scrollOffset :: real
  isScrolling :: bool
  rootSize_width :: real
  rootSize_height :: real
  rootChildSize_width :: real
  rootChildSize_height :: real
  translate_x :: shared
  translate_y :: shared
  scale :: shared
  offset_x :: real
  offset_y :: real
  detectorTranslate_x :: shared
  detectorTranslate_y :: shared
  detectorScale :: shared
  time :: real
  position_x :: real
  position_y :: real
  isPullingVertical :: bool
  pullReleased :: bool
  calls :: "js_call list"

definition minScale :: real where
  "minScale = 1"

section \<open>Utilities imported by the component\<close>

text \<open>
  Modelled from the spec: \<^verbatim>\<open>clamp\<close> is imported from \<^verbatim>\<open>commons/utils/clamp\<close>, which is
  not among the sources. The spec lists it among the pure-math utilities that produce
  bounded values: \<^verbatim>\<open>clamp(value, min, max)\<close> is \<^verbatim>\<open>value\<close> brought into the interval
  from \<^verbatim>\<open>min\<close> to \<^verbatim>\<open>max\<close>.
\<close>

definition clamp :: "real \<Rightarrow> real \<Rightarrow> real \<Rightarrow> real" where
  "clamp v lo hi = max lo (min v hi)"

text \<open>
  \<^verbatim>\<open>snapPoint\<close>, \<^verbatim>\<open>pinchTransform\<close> and \<^verbatim>\<open>getSwipeDirection\<close> are imported from files that
  are not among the sources either; the functions that call them take them as parameters.
\<close>

type_synonym snap_point = "real \<Rightarrow> real \<Rightarrow> real list \<Rightarrow> real"

text \<open>pinchTransform: toScale, fromScale, origin, delta, offset.\<close>

type_synonym pinch_transform =
  "real \<Rightarrow> real \<Rightarrow> real \<times> real \<Rightarrow> real \<times> real \<Rightarrow> real \<times> real \<Rightarrow> real \<times> real"

text \<open>getSwipeDirection: the event, then boundaries, time, position, translate.\<close>

type_synonym get_swipe_direction =
  "pan_event \<Rightarrow> real \<times> real \<Rightarrow> real \<Rightarrow> real \<times> real \<Rightarrow> real \<times> real \<Rightarrow> SwipeDirection option"

section \<open>The component's functions\<close>

text \<open>
  The functions below are boundsFn, reset, snapToScrollPosition, onSwipe, the reaction
  that reports a vertical pull, the three handlers of the pan gesture and the handler of
  the double tap. A handler takes the state and returns the state it leaves. The
  handler of the single tap and the pinch handlers, which usePinchCommons returns, are
  not modelled.
\<close>

definition boundsFn :: "state \<Rightarrow> real \<Rightarrow> real \<times> real" where
  "boundsFn s scaleValue =
     (let cWidth = rootChildSize_width s; cHeight = rootChildSize_height s;
          rWidth = rootSize_width s; rHeight = rootSize_height s;
          boundX = max 0 (cWidth * scaleValue - rWidth) / 2;
          boundY = max 0 (cHeight * scaleValue - rHeight) / 2
      in (boundX, boundY))"

definition reset :: "real \<Rightarrow> real \<Rightarrow> real \<Rightarrow> bool \<Rightarrow> state \<Rightarrow> state" where
  "reset toX toY toScale animate s =
     (let s1 = s\<lparr>detectorTranslate_x := assign (Plain (val (translate_x s))) (detectorTranslate_x s)\<rparr>;
          s2 = s1\<lparr>detectorTranslate_y := assign (Plain (val (translate_y s1))) (detectorTranslate_y s1)\<rparr>;
          s3 = s2\<lparr>detectorScale := assign (Plain (val (scale s2))) (detectorScale s2)\<rparr>;
          s4 = s3\<lparr>translate_x := assign (if animate then withTiming toX else Plain toX) (translate_x s3)\<rparr>;
          s5 = s4\<lparr>translate_y := assign (if animate then withTiming toY else Plain toY) (translate_y s4)\<rparr>;
          s6 = s5\<lparr>scale := assign (if animate then withTiming toScale else Plain toScale) (scale s5)\<rparr>;
          s7 = s6\<lparr>detectorTranslate_x :=
                 assign (if animate then withTiming toX else Plain toX) (detectorTranslate_x s6)\<rparr>;
          s8 = s7\<lparr>detectorTranslate_y :=
                 assign (if animate then withTiming toY else Plain toY) (detectorTranslate_y s7)\<rparr>
      in s8\<lparr>detectorScale :=
              assign (if animate then withTiming toScale else Plain toScale) (detectorScale s8)\<rparr>)"

definition snapToScrollPosition :: "props \<Rightarrow> snap_point \<Rightarrow> pan_event \<Rightarrow> state \<Rightarrow> state" where
  "snapToScrollPosition P snapPoint e s =
     (let index = activeIndex s;
          prev = itemSize P * clamp (index - 1) 0 (length_prop P - 1);
          current = itemSize P * index;
          next = itemSize P * clamp (index + 1) 0 (length_prop P - 1);
          velocity = (if vertical P then velocityY e else velocityX e);
          toScroll = snapPoint (val (scroll s)) velocity [prev, current, next];
          s1 = (if toScroll \<noteq> current
                then s\<lparr>fetchIndex := index + (if toScroll = next then 1 else - 1)\<rparr>
                else s)
      in s1\<lparr>scroll :=
              assign (withTimingCb toScroll config (snap_callback (toScroll \<noteq> current))) (scroll s1)\<rparr>)"

text \<open>
  onSwipe in two parts: \<open>swipe_target\<close> is the \<^verbatim>\<open>toIndex\<close> that the four conditional
  statements leave, before the clamp; \<open>onSwipe\<close> is the whole function.
\<close>

definition swipe_target :: "props \<Rightarrow> SwipeDirection \<Rightarrow> state \<Rightarrow> real" where
  "swipe_target P direction s =
     (let toIndex = activeIndex s;
          toIndex = (if direction = UP \<and> vertical P then toIndex + 1 else toIndex);
          toIndex = (if direction = DOWN \<and> vertical P then toIndex - 1 else toIndex);
          toIndex = (if direction = LEFT \<and> \<not> vertical P then toIndex + 1 else toIndex);
          toIndex = (if direction = RIGHT \<and> \<not> vertical P then toIndex - 1 else toIndex)
      in toIndex)"

definition onSwipe :: "props \<Rightarrow> SwipeDirection \<Rightarrow> state \<Rightarrow> state" where
  "onSwipe P direction s =
     (let toIndex = clamp (swipe_target P direction s) 0 (length_prop P - 1)
      in if toIndex = activeIndex s then s
         else
           (let s1 = s\<lparr>fetchIndex := toIndex\<rparr>
            in s1\<lparr>scroll :=
                    assign (withTimingCb (toIndex * itemSize P) config (swipe_callback toIndex))
                      (scroll s1)\<rparr>))"

text \<open>
  The bodies of the completion callbacks. The argument \<open>finished\<close> is the one the
  animation runtime passes; only the pull release reads it.
\<close>

fun run_callback :: "callback \<Rightarrow> bool \<Rightarrow> state \<Rightarrow> state" where
  "run_callback no_callback finished s = s"
| "run_callback (snap_callback changed) finished s =
     (let s1 = s\<lparr>activeIndex := fetchIndex s\<rparr>;
          s2 = s1\<lparr>isScrolling := False\<rparr>
      in if changed then reset 0 0 minScale False s2 else s2)"
| "run_callback (swipe_callback toIndex) finished s =
     (let s1 = s\<lparr>activeIndex := toIndex\<rparr>;
          s2 = s1\<lparr>isScrolling := False\<rparr>
      in reset 0 0 minScale False s2)"
| "run_callback pull_callback finished s =
     (let s1 = s\<lparr>isPullingVertical := \<not> finished\<rparr>
      in s1\<lparr>pullReleased := \<not> finished\<rparr>)"

text \<open>
  The animation runtime's part in a timing animation on \<^verbatim>\<open>scroll\<close> that runs to its
  end: the value reaches the target, the animation is gone, and the callback is called
  with \<^verbatim>\<open>finished = true\<close>. Nothing happens when no timing animation runs on it.
\<close>

definition scroll_finished :: "state \<Rightarrow> state" where
  "scroll_finished s =
     (case running (scroll s) of
        Some (Timing toValue cfg cb) \<Rightarrow>
          run_callback cb True (s\<lparr>scroll := \<lparr>val = toValue, running = None\<rparr>\<rparr>)
      | _ \<Rightarrow> s)"

text \<open>
  The reaction on \<^verbatim>\<open>translate.y\<close>, \<^verbatim>\<open>scale\<close>, \<^verbatim>\<open>isPullingVertical\<close> and \<^verbatim>\<open>pullReleased\<close>:
  the result is the arguments of the call of \<^verbatim>\<open>onVerticalPull\<close>, or \<open>None\<close> when the
  reaction does not call it.
\<close>

definition vertical_pull_reaction :: "props \<Rightarrow> state \<Rightarrow> (real \<times> bool) option" where
  "vertical_pull_reaction P s =
     (let v_translate = val (translate_y s);
          v_scale = val (scale s);
          v_isPulling = isPullingVertical s;
          v_released = pullReleased s;
          shouldPull = (\<not> vertical P \<and> v_scale = 1 \<and> v_isPulling)
      in if shouldPull \<and> onVerticalPull P then Some (v_translate, v_released) else None)"

definition pan_onStart :: "props \<Rightarrow> real \<Rightarrow> pan_event \<Rightarrow> state \<Rightarrow> state" where
  "pan_onStart P now e s =
     (let s1 = (if onPanStart P then s\<lparr>calls := calls s @ [PanStartCall e]\<rparr> else s);
          s2 = s1\<lparr>translate_x := cancelAnimation (translate_x s1)\<rparr>;
          s3 = s2\<lparr>translate_y := cancelAnimation (translate_y s2)\<rparr>;
          s4 = s3\<lparr>detectorTranslate_x := cancelAnimation (detectorTranslate_x s3)\<rparr>;
          s5 = s4\<lparr>detectorTranslate_y := cancelAnimation (detectorTranslate_y s4)\<rparr>;
          isVerticalPan = (\<bar>velocityY e\<bar> > \<bar>velocityX e\<bar>);
          s6 = s5\<lparr>isPullingVertical := (isVerticalPan \<and> val (scale s5) = 1 \<and> \<not> vertical P)\<rparr>;
          s7 = s6\<lparr>isScrolling := True\<rparr>;
          s8 = s7\<lparr>time := now\<rparr>;
          s9 = s8\<lparr>position_x := absoluteX e\<rparr>;
          s10 = s9\<lparr>position_y := absoluteY e\<rparr>;
          s11 = s10\<lparr>scrollOffset := val (scroll s10)\<rparr>;
          s12 = s11\<lparr>offset_x := val (translate_x s11)\<rparr>
      in s12\<lparr>offset_y := val (translate_y s12)\<rparr>)"

definition pan_onUpdate :: "props \<Rightarrow> pan_event \<Rightarrow> state \<Rightarrow> state" where
  "pan_onUpdate P e s =
     (if isPullingVertical s
      then s\<lparr>translate_y := assign (Plain (translationY e)) (translate_y s)\<rparr>
      else
        (let toX = offset_x s + translationX e;
             toY = offset_y s + translationY e;
             (boundX, boundY) = boundsFn s (val (scale s));
             exceedX = max 0 (\<bar>toX\<bar> - boundX);
             exceedY = max 0 (\<bar>toY\<bar> - boundY);
             scrollX = - 1 * sgn toX * exceedX;
             scrollY = - 1 * sgn toY * exceedY;
             s1 = s\<lparr>scroll :=
                    assign (Plain (clamp (scrollOffset s + (if vertical P then scrollY else scrollX))
                                    0 ((length_prop P - 1) * itemSize P)))
                      (scroll s)\<rparr>;
             s2 = s1\<lparr>translate_x := assign (Plain (clamp toX (- 1 * boundX) boundX)) (translate_x s1)\<rparr>;
             s3 = s2\<lparr>translate_y := assign (Plain (clamp toY (- 1 * boundY) boundY)) (translate_y s2)\<rparr>;
             s4 = s3\<lparr>detectorTranslate_x :=
                      assign (Plain (clamp toX (- 1 * boundX) boundX)) (detectorTranslate_x s3)\<rparr>
         in s4\<lparr>detectorTranslate_y :=
                 assign (Plain (clamp toY (- 1 * boundY) boundY)) (detectorTranslate_y s4)\<rparr>))"

definition pan_onEnd ::
  "props \<Rightarrow> get_swipe_direction \<Rightarrow> snap_point \<Rightarrow> pan_event \<Rightarrow> state \<Rightarrow> state" where
  "pan_onEnd P getSwipeDirection snapPoint e s =
     (let bounds = boundsFn s (val (scale s));
          direction = getSwipeDirection e bounds (time s) (position_x s, position_y s)
                        (if isPullingVertical s then 100 else val (translate_x s),
                         if isPullingVertical s then 0 else val (translate_y s));
          s1 = (case direction of Some d \<Rightarrow> onSwipe P d s | None \<Rightarrow> s);
          s2 = (case direction of
                  Some d \<Rightarrow> if onUserSwipe P then s1\<lparr>calls := calls s1 @ [UserSwipeCall d]\<rparr> else s1
                | None \<Rightarrow> s1)
      in if isPullingVertical s2
         then
           (let s3 = s2\<lparr>pullReleased := True\<rparr>
            in s3\<lparr>translate_y := assign (withTimingCb 0 default_config pull_callback) (translate_y s3)\<rparr>)
         else
           (let isSwipingH = (direction = Some LEFT \<or> direction = Some RIGHT);
                isSwipingV = (direction = Some UP \<or> direction = Some DOWN);
                snapV = (vertical P \<and> (direction = None \<or> isSwipingH));
                snapH = (\<not> vertical P \<and> (direction = None \<or> isSwipingV));
                s3 = (if onPanEnd P then s2\<lparr>calls := calls s2 @ [PanEndCall e]\<rparr> else s2);
                s4 = (if snapV \<or> snapH then snapToScrollPosition P snapPoint e s3 else s3);
                configX = (velocityX e, (- fst bounds, fst bounds));
                configY = (velocityY e, (- snd bounds, snd bounds));
                s5 = s4\<lparr>translate_x := assign (withDecay (fst configX) (snd configX)) (translate_x s4)\<rparr>;
                s6 = s5\<lparr>translate_y := assign (withDecay (fst configY) (snd configY)) (translate_y s5)\<rparr>;
                s7 = s6\<lparr>detectorTranslate_x :=
                         assign (withDecay (fst configX) (snd configX)) (detectorTranslate_x s6)\<rparr>
            in s7\<lparr>detectorTranslate_y :=
                    assign (withDecay (fst configY) (snd configY)) (detectorTranslate_y s7)\<rparr>))"

definition doubleTap_onEnd :: "props \<Rightarrow> pinch_transform \<Rightarrow> tap_event \<Rightarrow> state \<Rightarrow> state" where
  "doubleTap_onEnd P pinchTransform e s =
     (let originX = tap_x e - rootSize_width s / 2;
          originY = tap_y e - rootSize_height s / 2;
          toScale = (if val (scale s) \<ge> maxScale P * 0.8 then minScale else maxScale P);
          (x, y) = pinchTransform toScale (val (scale s)) (originX, originY) (0, 0)
                     (val (translate_x s), val (translate_y s));
          (boundX, boundY) = boundsFn s toScale;
          toX = clamp x (- 1 * boundX) boundX;
          toY = clamp y (- 1 * boundY) boundY
      in reset toX toY toScale True s)"

section \<open>Concrete inputs\<close>

text \<open>
  A horizontal gallery of five items, 400 wide, in a root of 400 by 800 whose child is
  400 by 300; the third item is active and nothing moves.
\<close>

definition ex_props :: props where
  "ex_props = \<lparr>length_prop = 5, maxScale = 3, itemSize = 400, vertical = False,
                onPanStart = True, onPanEnd = True, onUserSwipe = True, onVerticalPull = True\<rparr>"

definition ex_state :: state where
  "ex_state = \<lparr>activeIndex = 2, fetchIndex = 2, scroll = \<lparr>val = 800, running = None\<rparr>,
     scrollOffset = 800, isScrolling = False,
     rootSize_width = 400, rootSize_height = 800,
     rootChildSize_width = 400, rootChildSize_height = 300,
     translate_x = \<lparr>val = 0, running = None\<rparr>, translate_y = \<lparr>val = 0, running = None\<rparr>,
     scale = \<lparr>val = 1, running = None\<rparr>, offset_x = 0, offset_y = 0,
     detectorTranslate_x = \<lparr>val = 0, running = None\<rparr>,
     detectorTranslate_y = \<lparr>val = 0, running = None\<rparr>,
     detectorScale = \<lparr>val = 1, running = None\<rparr>,
     time = 0, position_x = 0, position_y = 0,
     isPullingVertical = False, pullReleased = False, calls = []\<rparr>"

text \<open>The same gallery zoomed to scale 3, where the bounds are 400 and 50.\<close>

definition ex_zoomed :: state where
  "ex_zoomed = ex_state\<lparr>scale := \<lparr>val = 3, running = None\<rparr>,
                         detectorScale := \<lparr>val = 3, running = None\<rparr>\<rparr>"

text \<open>The same gallery during a vertical pull, and with its first item active.\<close>

definition ex_pulling :: state where
  "ex_pulling = ex_state\<lparr>isPullingVertical := True\<rparr>"

definition ex_first :: state where
  "ex_first = ex_state\<lparr>activeIndex := 0, fetchIndex := 0, scroll := \<lparr>val = 0, running = None\<rparr>,
                        scrollOffset := 0\<rparr>"

definition ex_pan :: pan_event where
  "ex_pan = \<lparr>velocityX = 120, velocityY = - 900, translationX = 30, translationY = - 250,
              absoluteX = 200, absoluteY = 400\<rparr>"

text \<open>A fast pan to the right, along the axis of the gallery.\<close>

definition ex_fling :: pan_event where
  "ex_fling = \<lparr>velocityX = 1500, velocityY = 40, translationX = 90, translationY = 5,
                absoluteX = 200, absoluteY = 400\<rparr>"

text \<open>
  Instances of the two function parameters of \<open>pan_onEnd\<close> for the concrete
  evaluations: a recogniser that sees no swipe, and a snap function that picks the
  candidate nearest to \<open>value + 0.2 * velocity\<close>, the earlier one on a tie.
\<close>

definition ex_no_swipe :: get_swipe_direction where
  "ex_no_swipe e boundaries t pos tr = None"

definition ex_snapPoint :: snap_point where
  "ex_snapPoint v velocity points =
     (let point = v + 0.2 * velocity
      in case points of
           [] \<Rightarrow> v
         | p # ps \<Rightarrow> fold (\<lambda>q best. if \<bar>point - q\<bar> < \<bar>point - best\<bar> then q else best) ps p)"

section \<open>Properties of the utilities\<close>

lemma clamp_range: "lo \<le> hi \<Longrightarrow> lo \<le> clamp v lo hi \<and> clamp v lo hi \<le> hi"
  by (simp add: clamp_def)

lemma clamp_inside: "lo \<le> v \<Longrightarrow> v \<le> hi \<Longrightarrow> clamp v lo hi = v"
  by (simp add: clamp_def)

lemma boundsFn_ge_0: "0 \<le> fst (boundsFn s k) \<and> 0 \<le> snd (boundsFn s k)"
  by (simp add: boundsFn_def Let_def)

text \<open>
  C8: for every scale and every root and child size the two bounds of boundsFn are
  non-negative; on an axis where the scaled child is no larger than the root the bound
  is 0, and clamping any translation to that bound gives 0.
\<close>

theorem boundsFn_nonnegative:
  "0 \<le> fst (boundsFn s k) \<and> 0 \<le> snd (boundsFn s k) \<and>
   (rootChildSize_width s * k \<le> rootSize_width s \<longrightarrow>
      fst (boundsFn s k) = 0 \<and> clamp v (- 1 * fst (boundsFn s k)) (fst (boundsFn s k)) = 0) \<and>
   (rootChildSize_height s * k \<le> rootSize_height s \<longrightarrow>
      snd (boundsFn s k) = 0 \<and> clamp v (- 1 * snd (boundsFn s k)) (snd (boundsFn s k)) = 0)"
  by (simp add: boundsFn_def Let_def clamp_def)

theorem boundsFn_nonnegative_witness:
  "rootChildSize_width ex_state * 1 \<le> rootSize_width ex_state \<and>
   rootChildSize_height ex_state * 1 \<le> rootSize_height ex_state \<and>
   boundsFn ex_state 1 = (0, 0) \<and>
   clamp 37 (- 1 * fst (boundsFn ex_state 1)) (fst (boundsFn ex_state 1)) = 0 \<and>
   clamp (- 12) (- 1 * snd (boundsFn ex_state 1)) (snd (boundsFn ex_state 1)) = 0 \<and>
   boundsFn ex_zoomed 3 = (400, 50)"
  using boundsFn_nonnegative [where s = ex_state and k = 1 and v = 37]
    boundsFn_nonnegative [where s = ex_state and k = 1 and v = "- 12"]
  by (simp add: ex_state_def ex_zoomed_def boundsFn_def Let_def clamp_def)

section \<open>The pan gesture\<close>

text \<open>
  C3: at pan start isPullingVertical becomes true exactly when the start event has
  |velocityY| > |velocityX|, the scale is 1 and the gallery is not vertical.
\<close>

theorem pan_onStart_pull:
  "isPullingVertical (pan_onStart P now e s) \<longleftrightarrow>
     (\<bar>velocityY e\<bar> > \<bar>velocityX e\<bar> \<and> val (scale s) = 1 \<and> \<not> vertical P)"
  by (simp add: pan_onStart_def Let_def cancelAnimation_def)

text \<open>
  C1: a pan update outside a vertical pull writes to translate.x and detectorTranslate.x
  the value offset.x + translationX clamped to the interval from -boundX to boundX, and
  to translate.y and detectorTranslate.y the value offset.y + translationY clamped to
  the interval from -boundY to boundY, with (boundX, boundY) = boundsFn(scale.value);
  the four written values lie in those intervals.
\<close>

theorem pan_onUpdate_clamped:
  assumes "\<not> isPullingVertical s"
  shows "let (boundX, boundY) = boundsFn s (val (scale s));
             toX = offset_x s + translationX e;
             toY = offset_y s + translationY e;
             s' = pan_onUpdate P e s
         in translate_x s' = \<lparr>val = clamp toX (- boundX) boundX, running = None\<rparr> \<and>
            detectorTranslate_x s' = \<lparr>val = clamp toX (- boundX) boundX, running = None\<rparr> \<and>
            translate_y s' = \<lparr>val = clamp toY (- boundY) boundY, running = None\<rparr> \<and>
            detectorTranslate_y s' = \<lparr>val = clamp toY (- boundY) boundY, running = None\<rparr> \<and>
            - boundX \<le> val (translate_x s') \<and> val (translate_x s') \<le> boundX \<and>
            - boundX \<le> val (detectorTranslate_x s') \<and> val (detectorTranslate_x s') \<le> boundX \<and>
            - boundY \<le> val (translate_y s') \<and> val (translate_y s') \<le> boundY \<and>
            - boundY \<le> val (detectorTranslate_y s') \<and> val (detectorTranslate_y s') \<le> boundY"
proof -
  obtain bx "by" where b: "boundsFn s (val (scale s)) = (bx, by)"
    by (cases "boundsFn s (val (scale s))")
  have nn: "0 \<le> bx" "0 \<le> by"
    using boundsFn_ge_0 [of s "val (scale s)"] b by simp_all
  have rx: "- bx \<le> clamp v (- bx) bx \<and> clamp v (- bx) bx \<le> bx" for v
    using nn by (intro clamp_range) simp
  have ry: "- by \<le> clamp v (- by) by \<and> clamp v (- by) by \<le> by" for v
    using nn by (intro clamp_range) simp
  show ?thesis
    using assms rx ry by (simp add: pan_onUpdate_def Let_def b)
qed

theorem pan_onUpdate_clamped_witness:
  "\<not> isPullingVertical ex_zoomed \<and>
   boundsFn ex_zoomed (val (scale ex_zoomed)) = (400, 50) \<and>
   translate_x (pan_onUpdate ex_props ex_pan ex_zoomed) = \<lparr>val = 30, running = None\<rparr> \<and>
   detectorTranslate_x (pan_onUpdate ex_props ex_pan ex_zoomed) = \<lparr>val = 30, running = None\<rparr> \<and>
   translate_y (pan_onUpdate ex_props ex_pan ex_zoomed) = \<lparr>val = - 50, running = None\<rparr> \<and>
   detectorTranslate_y (pan_onUpdate ex_props ex_pan ex_zoomed) = \<lparr>val = - 50, running = None\<rparr>"
  using pan_onUpdate_clamped [where s = ex_zoomed and e = ex_pan and P = ex_props]
  by (simp add: ex_zoomed_def ex_state_def ex_pan_def ex_props_def boundsFn_def Let_def clamp_def)

text \<open>
  C10: during a vertical pull a pan update changes translate.y only, to the raw
  translationY of the event; translate.x, detectorTranslate.x, detectorTranslate.y,
  detectorScale, scale and scroll keep their values, as does the rest of the state.
\<close>

theorem pan_onUpdate_pulling:
  assumes "isPullingVertical s"
  shows "let s' = pan_onUpdate P e s
         in s' = s\<lparr>translate_y := \<lparr>val = translationY e, running = None\<rparr>\<rparr> \<and>
            translate_y s' = \<lparr>val = translationY e, running = None\<rparr> \<and>
            translate_x s' = translate_x s \<and>
            detectorTranslate_x s' = detectorTranslate_x s \<and>
            detectorTranslate_y s' = detectorTranslate_y s \<and>
            detectorScale s' = detectorScale s \<and>
            scale s' = scale s \<and>
            scroll s' = scroll s"
  using assms by (simp add: pan_onUpdate_def)

theorem pan_onUpdate_pulling_witness:
  "isPullingVertical ex_pulling \<and>
   pan_onUpdate ex_props ex_pan ex_pulling =
     ex_pulling\<lparr>translate_y := \<lparr>val = - 250, running = None\<rparr>\<rparr> \<and>
   detectorTranslate_y (pan_onUpdate ex_props ex_pan ex_pulling) = \<lparr>val = 0, running = None\<rparr>"
  using pan_onUpdate_pulling [where s = ex_pulling and e = ex_pan and P = ex_props]
  by (simp add: ex_pulling_def ex_state_def ex_pan_def Let_def)

section \<open>The vertical pull reaction\<close>

text \<open>
  C7: the reaction calls onVerticalPull only when the gallery is not vertical, the scale
  is 1 and isPullingVertical is true (and the callback was passed); in every other case
  it does not call it. When it calls, the arguments are translate.y and pullReleased.
\<close>

theorem vertical_pull_guard:
  "(vertical_pull_reaction P s \<noteq> None) =
     (\<not> vertical P \<and> val (scale s) = 1 \<and> isPullingVertical s \<and> onVerticalPull P) \<and>
   (vertical_pull_reaction P s = None \<or>
    vertical_pull_reaction P s = Some (val (translate_y s), pullReleased s))"
  by (simp add: vertical_pull_reaction_def Let_def)

section \<open>Swipes\<close>

lemma swipe_target_cases:
  "swipe_target P direction s = activeIndex s + 1 \<or>
   swipe_target P direction s = activeIndex s + - 1 \<or>
   swipe_target P direction s = activeIndex s + 0"
  by (cases direction) (simp_all add: swipe_target_def Let_def)

text \<open>
  C9: when the target index of a swipe, after the clamp, is the current activeIndex,
  onSwipe returns the state as it was: fetchIndex, scroll, activeIndex, isScrolling,
  translate and scale are unchanged.
\<close>

theorem onSwipe_unchanged:
  assumes "clamp (swipe_target P direction s) 0 (length_prop P - 1) = activeIndex s"
  shows "let s' = onSwipe P direction s
         in s' = s \<and> fetchIndex s' = fetchIndex s \<and> scroll s' = scroll s \<and>
            activeIndex s' = activeIndex s \<and> isScrolling s' = isScrolling s \<and>
            translate_x s' = translate_x s \<and> translate_y s' = translate_y s \<and>
            scale s' = scale s"
  using assms by (simp add: onSwipe_def Let_def)

theorem onSwipe_unchanged_witness:
  "clamp (swipe_target ex_props RIGHT ex_first) 0 (length_prop ex_props - 1) = activeIndex ex_first \<and>
   onSwipe ex_props RIGHT ex_first = ex_first"
  using onSwipe_unchanged [where P = ex_props and direction = RIGHT and s = ex_first]
  by (simp add: ex_first_def ex_state_def ex_props_def swipe_target_def clamp_def Let_def)

text \<open>
  The two situations the claim names: with activeIndex in the range of the gallery, a
  swipe across the gallery's axis, and a swipe outward at either end, clamp back.
\<close>

lemma onSwipe_orthogonal:
  assumes "0 \<le> activeIndex s" and "activeIndex s \<le> length_prop P - 1"
    and "if vertical P then direction = LEFT \<or> direction = RIGHT
         else direction = UP \<or> direction = DOWN"
  shows "onSwipe P direction s = s"
  using assms by (cases direction) (auto simp: onSwipe_def swipe_target_def clamp_def Let_def)

lemma onSwipe_outward_first:
  assumes "activeIndex s = 0" and "1 \<le> length_prop P"
    and "direction = (if vertical P then DOWN else RIGHT)"
  shows "onSwipe P direction s = s"
  using assms by (auto simp: onSwipe_def swipe_target_def clamp_def Let_def)

lemma onSwipe_outward_last:
  assumes "activeIndex s = length_prop P - 1" and "1 \<le> length_prop P"
    and "direction = (if vertical P then UP else LEFT)"
  shows "onSwipe P direction s = s"
  using assms by (auto simp: onSwipe_def swipe_target_def clamp_def Let_def)

section \<open>The detector transform\<close>

lemma reset_animated:
  "reset toX toY toScale True s =
     s\<lparr>translate_x := \<lparr>val = val (translate_x s), running = Some (Timing toX default_config no_callback)\<rparr>,
       translate_y := \<lparr>val = val (translate_y s), running = Some (Timing toY default_config no_callback)\<rparr>,
       scale := \<lparr>val = val (scale s), running = Some (Timing toScale default_config no_callback)\<rparr>,
       detectorTranslate_x :=
         \<lparr>val = val (translate_x s), running = Some (Timing toX default_config no_callback)\<rparr>,
       detectorTranslate_y :=
         \<lparr>val = val (translate_y s), running = Some (Timing toY default_config no_callback)\<rparr>,
       detectorScale :=
         \<lparr>val = val (scale s), running = Some (Timing toScale default_config no_callback)\<rparr>\<rparr>"
  by (simp add: reset_def Let_def withTiming_def)

lemma reset_immediate:
  "reset toX toY toScale False s =
     s\<lparr>translate_x := \<lparr>val = toX, running = None\<rparr>,
       translate_y := \<lparr>val = toY, running = None\<rparr>,
       scale := \<lparr>val = toScale, running = None\<rparr>,
       detectorTranslate_x := \<lparr>val = toX, running = None\<rparr>,
       detectorTranslate_y := \<lparr>val = toY, running = None\<rparr>,
       detectorScale := \<lparr>val = toScale, running = None\<rparr>\<rparr>"
  by (simp add: reset_def Let_def)

lemma reset_synchronised:
  "detectorTranslate_x (reset toX toY toScale animate s) = translate_x (reset toX toY toScale animate s) \<and>
   detectorTranslate_y (reset toX toY toScale animate s) = translate_y (reset toX toY toScale animate s) \<and>
   detectorScale (reset toX toY toScale animate s) = scale (reset toX toY toScale animate s)"
  by (cases animate) (simp_all add: reset_animated reset_immediate)

lemma reset_targets:
  "translate_x (reset toX toY toScale animate s) =
     assign (if animate then withTiming toX else Plain toX) (translate_x s) \<and>
   translate_y (reset toX toY toScale animate s) =
     assign (if animate then withTiming toY else Plain toY) (translate_y s) \<and>
   scale (reset toX toY toScale animate s) =
     assign (if animate then withTiming toScale else Plain toScale) (scale s)"
  by (cases animate) (simp_all add: reset_animated reset_immediate withTiming_def)

lemma onSwipe_frame:
  "translate_x (onSwipe P d s) = translate_x s \<and> translate_y (onSwipe P d s) = translate_y s \<and>
   detectorTranslate_x (onSwipe P d s) = detectorTranslate_x s \<and>
   detectorTranslate_y (onSwipe P d s) = detectorTranslate_y s \<and>
   scale (onSwipe P d s) = scale s \<and> detectorScale (onSwipe P d s) = detectorScale s \<and>
   isPullingVertical (onSwipe P d s) = isPullingVertical s \<and>
   pullReleased (onSwipe P d s) = pullReleased s"
  by (simp add: onSwipe_def Let_def)

lemma snapToScrollPosition_frame:
  "translate_x (snapToScrollPosition P sp e s) = translate_x s \<and>
   translate_y (snapToScrollPosition P sp e s) = translate_y s \<and>
   detectorTranslate_x (snapToScrollPosition P sp e s) = detectorTranslate_x s \<and>
   detectorTranslate_y (snapToScrollPosition P sp e s) = detectorTranslate_y s \<and>
   scale (snapToScrollPosition P sp e s) = scale s \<and>
   detectorScale (snapToScrollPosition P sp e s) = detectorScale s \<and>
   isPullingVertical (snapToScrollPosition P sp e s) = isPullingVertical s"
  by (simp add: snapToScrollPosition_def Let_def)

lemma pan_onUpdate_synchronised:
  assumes "\<not> isPullingVertical s"
  shows "detectorTranslate_x (pan_onUpdate P e s) = translate_x (pan_onUpdate P e s) \<and>
         detectorTranslate_y (pan_onUpdate P e s) = translate_y (pan_onUpdate P e s) \<and>
         scale (pan_onUpdate P e s) = scale s \<and>
         detectorScale (pan_onUpdate P e s) = detectorScale s"
  using assms by (simp add: pan_onUpdate_def Let_def split_beta)

lemma pan_onEnd_decay:
  assumes "\<not> isPullingVertical s"
  shows "translate_x (pan_onEnd P gsd sp e s) =
           (translate_x s)\<lparr>running :=
              Some (Decay (velocityX e) (- fst (boundsFn s (val (scale s)))) (fst (boundsFn s (val (scale s)))))\<rparr>"
    and "detectorTranslate_x (pan_onEnd P gsd sp e s) =
           (detectorTranslate_x s)\<lparr>running :=
              Some (Decay (velocityX e) (- fst (boundsFn s (val (scale s)))) (fst (boundsFn s (val (scale s)))))\<rparr>"
    and "translate_y (pan_onEnd P gsd sp e s) =
           (translate_y s)\<lparr>running :=
              Some (Decay (velocityY e) (- snd (boundsFn s (val (scale s)))) (snd (boundsFn s (val (scale s)))))\<rparr>"
    and "detectorTranslate_y (pan_onEnd P gsd sp e s) =
           (detectorTranslate_y s)\<lparr>running :=
              Some (Decay (velocityY e) (- snd (boundsFn s (val (scale s)))) (snd (boundsFn s (val (scale s)))))\<rparr>"
    and "scale (pan_onEnd P gsd sp e s) = scale s"
    and "detectorScale (pan_onEnd P gsd sp e s) = detectorScale s"
  using assms
  by (simp_all add: pan_onEnd_def Let_def withDecay_def onSwipe_frame snapToScrollPosition_frame
      split: option.split)

text \<open>
  C2: reset, a pan update outside a vertical pull, and the decay started at pan end each
  write to detectorTranslate.x, detectorTranslate.y and detectorScale what they write to
  translate.x, translate.y and scale. After reset the detector's three shared values
  equal the rendered ones; after the pan update the two translations are equal and
  neither scale is written; at pan end the four translations get the same decay and
  neither scale is written.
\<close>

theorem detector_synchronised:
  "(let s' = reset toX toY toScale animate s
    in translate_x s' = assign (if animate then withTiming toX else Plain toX) (translate_x s) \<and>
       translate_y s' = assign (if animate then withTiming toY else Plain toY) (translate_y s) \<and>
       scale s' = assign (if animate then withTiming toScale else Plain toScale) (scale s) \<and>
       detectorTranslate_x s' = translate_x s' \<and>
       detectorTranslate_y s' = translate_y s' \<and>
       detectorScale s' = scale s') \<and>
   (\<not> isPullingVertical s \<longrightarrow>
      (let s' = pan_onUpdate P e s
       in detectorTranslate_x s' = translate_x s' \<and>
          detectorTranslate_y s' = translate_y s' \<and>
          scale s' = scale s \<and> detectorScale s' = detectorScale s)) \<and>
   (\<not> isPullingVertical s \<longrightarrow>
      (let s' = pan_onEnd P getSwipeDirection snapPoint e s;
           (boundX, boundY) = boundsFn s (val (scale s))
       in running (translate_x s') = Some (Decay (velocityX e) (- boundX) boundX) \<and>
          running (detectorTranslate_x s') = Some (Decay (velocityX e) (- boundX) boundX) \<and>
          running (translate_y s') = Some (Decay (velocityY e) (- boundY) boundY) \<and>
          running (detectorTranslate_y s') = Some (Decay (velocityY e) (- boundY) boundY) \<and>
          scale s' = scale s \<and> detectorScale s' = detectorScale s))"
proof -
  have r: "let s' = reset toX toY toScale animate s
    in translate_x s' = assign (if animate then withTiming toX else Plain toX) (translate_x s) \<and>
       translate_y s' = assign (if animate then withTiming toY else Plain toY) (translate_y s) \<and>
       scale s' = assign (if animate then withTiming toScale else Plain toScale) (scale s) \<and>
       detectorTranslate_x s' = translate_x s' \<and>
       detectorTranslate_y s' = translate_y s' \<and>
       detectorScale s' = scale s'"
    unfolding Let_def using reset_targets [of toX toY toScale animate s]
      reset_synchronised [of toX toY toScale animate s] by blast
  have u: "let s' = pan_onUpdate P e s
       in detectorTranslate_x s' = translate_x s' \<and>
          detectorTranslate_y s' = translate_y s' \<and>
          scale s' = scale s \<and> detectorScale s' = detectorScale s"
    if "\<not> isPullingVertical s"
    unfolding Let_def using pan_onUpdate_synchronised [OF that] by blast
  have d: "let s' = pan_onEnd P getSwipeDirection snapPoint e s;
           (boundX, boundY) = boundsFn s (val (scale s))
       in running (translate_x s') = Some (Decay (velocityX e) (- boundX) boundX) \<and>
          running (detectorTranslate_x s') = Some (Decay (velocityX e) (- boundX) boundX) \<and>
          running (translate_y s') = Some (Decay (velocityY e) (- boundY) boundY) \<and>
          running (detectorTranslate_y s') = Some (Decay (velocityY e) (- boundY) boundY) \<and>
          scale s' = scale s \<and> detectorScale s' = detectorScale s"
    if "\<not> isPullingVertical s"
    by (simp add: Let_def split_beta pan_onEnd_decay [OF that])
  show ?thesis using r u d by blast
qed

theorem detector_synchronised_witness:
  "\<not> isPullingVertical ex_zoomed \<and>
   translate_x (pan_onUpdate ex_props ex_pan ex_zoomed) = \<lparr>val = 30, running = None\<rparr> \<and>
   detectorTranslate_x (pan_onUpdate ex_props ex_pan ex_zoomed) = \<lparr>val = 30, running = None\<rparr> \<and>
   running (translate_x (pan_onEnd ex_props ex_no_swipe ex_snapPoint ex_pan ex_zoomed)) =
     Some (Decay 120 (- 400) 400) \<and>
   running (detectorTranslate_x (pan_onEnd ex_props ex_no_swipe ex_snapPoint ex_pan ex_zoomed)) =
     Some (Decay 120 (- 400) 400) \<and>
   running (translate_y (pan_onEnd ex_props ex_no_swipe ex_snapPoint ex_pan ex_zoomed)) =
     Some (Decay (- 900) (- 50) 50) \<and>
   running (detectorTranslate_y (pan_onEnd ex_props ex_no_swipe ex_snapPoint ex_pan ex_zoomed)) =
     Some (Decay (- 900) (- 50) 50) \<and>
   detectorScale (reset 0 0 1 True ex_zoomed) = scale (reset 0 0 1 True ex_zoomed)"
  using detector_synchronised [where s = ex_zoomed and e = ex_pan and P = ex_props
      and getSwipeDirection = ex_no_swipe and snapPoint = ex_snapPoint
      and toX = 0 and toY = 0 and toScale = 1 and animate = True]
  by (simp add: ex_zoomed_def ex_state_def ex_pan_def ex_props_def ex_no_swipe_def
      boundsFn_def Let_def clamp_def pan_onUpdate_def)

section \<open>A swipe moves one item\<close>

lemma clamp_neighbour:
  assumes "a \<in> \<int>" and "l \<in> \<int>" and "0 \<le> a" and "a \<le> l - 1"
    and "d = 1 \<or> d = - 1 \<or> d = 0" and "clamp (a + d) 0 (l - 1) \<noteq> a"
  shows "\<bar>clamp (a + d) 0 (l - 1) - a\<bar> = 1"
proof -
  obtain i where i: "a = real_of_int i" using assms(1) by (auto elim: Ints_cases)
  obtain j where j: "l = real_of_int j" using assms(2) by (auto elim: Ints_cases)
  have ij: "0 \<le> i" "i \<le> j - 1" using assms(3,4) i j by linarith+
  consider "d = 1" | "d = - 1" | "d = 0" using assms(5) by blast
  then show ?thesis
  proof cases
    case 1
    show ?thesis
    proof (cases "i + 1 \<le> j - 1")
      case True
      then have "a + 1 \<le> l - 1" using i j by linarith
      then show ?thesis using 1 assms(3) by (simp add: clamp_def)
    next
      case False
      then have "i = j - 1" using ij by linarith
      then have "a = l - 1" using i j by simp
      then have "clamp (a + d) 0 (l - 1) = a" using 1 assms(3) by (simp add: clamp_def)
      then show ?thesis using assms(6) by simp
    qed
  next
    case 2
    show ?thesis
    proof (cases "1 \<le> i")
      case True
      then have "0 \<le> a - 1" using i by linarith
      then show ?thesis using 2 assms(4) by (simp add: clamp_def)
    next
      case False
      then have "i = 0" using ij by linarith
      then have "a = 0" using i by simp
      then have "clamp (a + d) 0 (l - 1) = a" using 2 assms(4) by (simp add: clamp_def)
      then show ?thesis using assms(6) by simp
    qed
  next
    case 3
    then have "clamp (a + d) 0 (l - 1) = a" using assms(3,4) by (simp add: clamp_def)
    then show ?thesis using assms(6) by simp
  qed
qed

lemma onSwipe_moved:
  assumes "clamp (swipe_target P direction s) 0 (length_prop P - 1) \<noteq> activeIndex s"
  shows "onSwipe P direction s =
           s\<lparr>fetchIndex := clamp (swipe_target P direction s) 0 (length_prop P - 1),
             scroll := \<lparr>val = val (scroll s),
                        running = Some (Timing (clamp (swipe_target P direction s) 0 (length_prop P - 1) * itemSize P)
                                          config
                                          (swipe_callback (clamp (swipe_target P direction s) 0 (length_prop P - 1))))\<rparr>\<rparr>"
  using assms by (simp add: onSwipe_def Let_def withTimingCb_def)

lemma onSwipe_finished:
  assumes "clamp (swipe_target P direction s) 0 (length_prop P - 1) \<noteq> activeIndex s"
  shows "scroll_finished (onSwipe P direction s) =
           s\<lparr>fetchIndex := clamp (swipe_target P direction s) 0 (length_prop P - 1),
             activeIndex := clamp (swipe_target P direction s) 0 (length_prop P - 1),
             scroll := \<lparr>val = clamp (swipe_target P direction s) 0 (length_prop P - 1) * itemSize P,
                        running = None\<rparr>,
             isScrolling := False,
             translate_x := \<lparr>val = 0, running = None\<rparr>,
             translate_y := \<lparr>val = 0, running = None\<rparr>,
             scale := \<lparr>val = minScale, running = None\<rparr>,
             detectorTranslate_x := \<lparr>val = 0, running = None\<rparr>,
             detectorTranslate_y := \<lparr>val = 0, running = None\<rparr>,
             detectorScale := \<lparr>val = minScale, running = None\<rparr>\<rparr>"
  by (simp add: onSwipe_moved [OF assms] scroll_finished_def reset_immediate)

text \<open>
  C4: onSwipe adds 1 to activeIndex for UP and subtracts 1 for DOWN in a vertical
  gallery, adds 1 for LEFT and subtracts 1 for RIGHT in a horizontal one, and leaves it
  for the other directions; the result is clamped to the interval from 0 to length - 1
  (for an integer activeIndex in that interval, a clamped target other than activeIndex
  is one item away). When the clamped target differs from activeIndex, fetchIndex
  becomes the target and scroll is animated to target * itemSize; when the animation
  ends, activeIndex is the target, isScrolling is false and the rendered and detector
  transforms are (0, 0, minScale).
\<close>

theorem onSwipe_one_item:
  "(let toIndex = clamp (swipe_target P direction s) 0 (length_prop P - 1);
        s' = onSwipe P direction s;
        s'' = scroll_finished s'
    in swipe_target P direction s = activeIndex s +
         (if vertical P
          then (case direction of UP \<Rightarrow> 1 | DOWN \<Rightarrow> - 1 | LEFT \<Rightarrow> 0 | RIGHT \<Rightarrow> 0)
          else (case direction of UP \<Rightarrow> 0 | DOWN \<Rightarrow> 0 | LEFT \<Rightarrow> 1 | RIGHT \<Rightarrow> - 1)) \<and>
       (1 \<le> length_prop P \<longrightarrow> 0 \<le> toIndex \<and> toIndex \<le> length_prop P - 1) \<and>
       (activeIndex s \<in> \<int> \<and> length_prop P \<in> \<int> \<and> 0 \<le> activeIndex s \<and>
        activeIndex s \<le> length_prop P - 1 \<and> toIndex \<noteq> activeIndex s \<longrightarrow>
          \<bar>toIndex - activeIndex s\<bar> = 1) \<and>
       (toIndex \<noteq> activeIndex s \<longrightarrow>
          fetchIndex s' = toIndex \<and>
          scroll s' = \<lparr>val = val (scroll s),
                       running = Some (Timing (toIndex * itemSize P) config (swipe_callback toIndex))\<rparr> \<and>
          activeIndex s' = activeIndex s \<and>
          scroll s'' = \<lparr>val = toIndex * itemSize P, running = None\<rparr> \<and>
          activeIndex s'' = toIndex \<and>
          fetchIndex s'' = toIndex \<and>
          \<not> isScrolling s'' \<and>
          translate_x s'' = \<lparr>val = 0, running = None\<rparr> \<and>
          translate_y s'' = \<lparr>val = 0, running = None\<rparr> \<and>
          scale s'' = \<lparr>val = minScale, running = None\<rparr> \<and>
          detectorTranslate_x s'' = \<lparr>val = 0, running = None\<rparr> \<and>
          detectorTranslate_y s'' = \<lparr>val = 0, running = None\<rparr> \<and>
          detectorScale s'' = \<lparr>val = minScale, running = None\<rparr>))"
proof -
  let ?t = "clamp (swipe_target P direction s) 0 (length_prop P - 1)"
  have a: "swipe_target P direction s = activeIndex s +
         (if vertical P
          then (case direction of UP \<Rightarrow> 1 | DOWN \<Rightarrow> - 1 | LEFT \<Rightarrow> 0 | RIGHT \<Rightarrow> 0)
          else (case direction of UP \<Rightarrow> 0 | DOWN \<Rightarrow> 0 | LEFT \<Rightarrow> 1 | RIGHT \<Rightarrow> - 1))"
    by (cases direction) (simp_all add: swipe_target_def Let_def)
  have b: "0 \<le> ?t \<and> ?t \<le> length_prop P - 1" if "1 \<le> length_prop P"
    using that by (intro clamp_range) simp
  have c: "\<bar>?t - activeIndex s\<bar> = 1"
    if "activeIndex s \<in> \<int>" "length_prop P \<in> \<int>" "0 \<le> activeIndex s"
       "activeIndex s \<le> length_prop P - 1" "?t \<noteq> activeIndex s"
  proof -
    obtain d where d: "swipe_target P direction s = activeIndex s + d" "d = 1 \<or> d = - 1 \<or> d = 0"
      using swipe_target_cases [of P direction s] by blast
    show ?thesis
      using clamp_neighbour [OF that(1-4) d(2)] that(5) by (simp add: d(1))
  qed
  have d: "fetchIndex (onSwipe P direction s) = ?t \<and>
          scroll (onSwipe P direction s) = \<lparr>val = val (scroll s),
                       running = Some (Timing (?t * itemSize P) config (swipe_callback ?t))\<rparr> \<and>
          activeIndex (onSwipe P direction s) = activeIndex s"
    if "?t \<noteq> activeIndex s"
    by (simp add: onSwipe_moved [OF that])
  have e: "scroll (scroll_finished (onSwipe P direction s)) = \<lparr>val = ?t * itemSize P, running = None\<rparr> \<and>
          activeIndex (scroll_finished (onSwipe P direction s)) = ?t \<and>
          fetchIndex (scroll_finished (onSwipe P direction s)) = ?t \<and>
          \<not> isScrolling (scroll_finished (onSwipe P direction s)) \<and>
          translate_x (scroll_finished (onSwipe P direction s)) = \<lparr>val = 0, running = None\<rparr> \<and>
          translate_y (scroll_finished (onSwipe P direction s)) = \<lparr>val = 0, running = None\<rparr> \<and>
          scale (scroll_finished (onSwipe P direction s)) = \<lparr>val = minScale, running = None\<rparr> \<and>
          detectorTranslate_x (scroll_finished (onSwipe P direction s)) = \<lparr>val = 0, running = None\<rparr> \<and>
          detectorTranslate_y (scroll_finished (onSwipe P direction s)) = \<lparr>val = 0, running = None\<rparr> \<and>
          detectorScale (scroll_finished (onSwipe P direction s)) = \<lparr>val = minScale, running = None\<rparr>"
    if "?t \<noteq> activeIndex s"
    by (simp add: onSwipe_finished [OF that])
  show ?thesis
    unfolding Let_def using a b c d e by blast
qed

theorem onSwipe_one_item_witness:
  "1 \<le> length_prop ex_props \<and> activeIndex ex_state \<in> \<int> \<and> length_prop ex_props \<in> \<int> \<and>
   0 \<le> activeIndex ex_state \<and> activeIndex ex_state \<le> length_prop ex_props - 1 \<and>
   clamp (swipe_target ex_props LEFT ex_state) 0 (length_prop ex_props - 1) = 3 \<and>
   activeIndex ex_state = 2 \<and>
   fetchIndex (onSwipe ex_props LEFT ex_state) = 3 \<and>
   scroll (onSwipe ex_props LEFT ex_state) =
     \<lparr>val = 800, running = Some (Timing 1200 config (swipe_callback 3))\<rparr> \<and>
   activeIndex (scroll_finished (onSwipe ex_props LEFT ex_state)) = 3 \<and>
   scroll (scroll_finished (onSwipe ex_props LEFT ex_state)) = \<lparr>val = 1200, running = None\<rparr> \<and>
   scale (scroll_finished (onSwipe ex_props LEFT ex_state)) = \<lparr>val = 1, running = None\<rparr>"
proof -
  have t: "clamp (swipe_target ex_props LEFT ex_state) 0 (length_prop ex_props - 1) = 3"
    by (simp add: ex_state_def ex_props_def swipe_target_def clamp_def Let_def)
  have a: "activeIndex ex_state = 2" "length_prop ex_props = 5" "itemSize ex_props = 400"
    "val (scroll ex_state) = 800"
    by (simp_all add: ex_state_def ex_props_def)
  have ne: "clamp (swipe_target ex_props LEFT ex_state) 0 (length_prop ex_props - 1)
              \<noteq> activeIndex ex_state"
    using t a by simp
  have "fetchIndex (onSwipe ex_props LEFT ex_state) =
          clamp (swipe_target ex_props LEFT ex_state) 0 (length_prop ex_props - 1) \<and>
        scroll (onSwipe ex_props LEFT ex_state) =
          \<lparr>val = val (scroll ex_state),
             running = Some (Timing
               (clamp (swipe_target ex_props LEFT ex_state) 0 (length_prop ex_props - 1) * itemSize ex_props)
               config
               (swipe_callback (clamp (swipe_target ex_props LEFT ex_state) 0 (length_prop ex_props - 1))))\<rparr> \<and>
        activeIndex (scroll_finished (onSwipe ex_props LEFT ex_state)) =
          clamp (swipe_target ex_props LEFT ex_state) 0 (length_prop ex_props - 1) \<and>
        scroll (scroll_finished (onSwipe ex_props LEFT ex_state)) =
          \<lparr>val = clamp (swipe_target ex_props LEFT ex_state) 0 (length_prop ex_props - 1) * itemSize ex_props,
             running = None\<rparr> \<and>
        scale (scroll_finished (onSwipe ex_props LEFT ex_state)) = \<lparr>val = minScale, running = None\<rparr>"
    using onSwipe_one_item [where P = ex_props and direction = LEFT and s = ex_state, unfolded Let_def]
      ne by blast
  then show ?thesis
    unfolding t using t by (simp add: a minScale_def)
qed

section \<open>Snapping to a scroll position\<close>

text \<open>
  The snap function of the concrete inputs returns one of its candidates.
\<close>

lemma fold_pick_member:
  "fold (\<lambda>q best. if c q best then q else best) ps p \<in> set (p # ps)"
proof (induction ps arbitrary: p)
  case Nil
  show ?case by simp
next
  case (Cons q ps)
  show ?case using Cons.IH [of q] Cons.IH [of p] by auto
qed

lemma ex_snapPoint_member: "ex_snapPoint v velocity (p # ps) \<in> set (p # ps)"
  unfolding ex_snapPoint_def Let_def list.case by (rule fold_pick_member)

text \<open>
  C5: snapToScrollPosition animates scroll to the offset snapPoint selects, from the
  current scroll and the velocity along the gallery's axis, among exactly the three
  candidates itemSize * clamp(index - 1, 0, length - 1), itemSize * index and
  itemSize * clamp(index + 1, 0, length - 1). fetchIndex is unchanged when the selected
  offset is the current item's one; otherwise it becomes index + 1 when the selected
  offset is the third candidate and index - 1 when it is not. For a snapPoint that
  returns an element of every non-empty list it is given, the target is one of the
  three candidates, and a target other than the current item's offset is the third
  candidate, with fetchIndex index + 1, or the first, with fetchIndex index - 1.
\<close>

theorem snapToScrollPosition_target:
  "(let index = activeIndex s;
        prev = itemSize P * clamp (index - 1) 0 (length_prop P - 1);
        current = itemSize P * index;
        next = itemSize P * clamp (index + 1) 0 (length_prop P - 1);
        velocity = (if vertical P then velocityY e else velocityX e);
        toScroll = snapPoint (val (scroll s)) velocity [prev, current, next];
        s' = snapToScrollPosition P snapPoint e s
    in scroll s' = \<lparr>val = val (scroll s),
                    running = Some (Timing toScroll config (snap_callback (toScroll \<noteq> current)))\<rparr> \<and>
       fetchIndex s' =
         (if toScroll = current then fetchIndex s
          else if toScroll = next then index + 1 else index - 1) \<and>
       ((\<forall>v w p ps. snapPoint v w (p # ps) \<in> set (p # ps)) \<longrightarrow>
          (toScroll = prev \<or> toScroll = current \<or> toScroll = next) \<and>
          (toScroll \<noteq> current \<longrightarrow>
             toScroll = next \<and> fetchIndex s' = index + 1 \<or>
             toScroll = prev \<and> toScroll \<noteq> next \<and> fetchIndex s' = index - 1)))"
proof -
  define index where "index = activeIndex s"
  define prev where "prev = itemSize P * clamp (index - 1) 0 (length_prop P - 1)"
  define current where "current = itemSize P * index"
  define "next" where "next = itemSize P * clamp (index + 1) 0 (length_prop P - 1)"
  define velocity where "velocity = (if vertical P then velocityY e else velocityX e)"
  define toScroll where "toScroll = snapPoint (val (scroll s)) velocity [prev, current, next]"
  have sc: "scroll (snapToScrollPosition P snapPoint e s) =
              \<lparr>val = val (scroll s),
                 running = Some (Timing toScroll config (snap_callback (toScroll \<noteq> current)))\<rparr>"
    by (simp add: snapToScrollPosition_def Let_def withTimingCb_def toScroll_def velocity_def
        next_def current_def prev_def index_def)
  have fi: "fetchIndex (snapToScrollPosition P snapPoint e s) =
              (if toScroll = current then fetchIndex s
               else if toScroll = next then index + 1 else index - 1)"
    by (simp add: snapToScrollPosition_def Let_def withTimingCb_def toScroll_def velocity_def
        next_def current_def prev_def index_def)
  have mem: "toScroll = prev \<or> toScroll = current \<or> toScroll = next"
    if "\<forall>v w p ps. snapPoint v w (p # ps) \<in> set (p # ps)"
  proof -
    have "toScroll \<in> set [prev, current, next]"
      unfolding toScroll_def using that by blast
    then show ?thesis by auto
  qed
  have "scroll (snapToScrollPosition P snapPoint e s) =
          \<lparr>val = val (scroll s),
             running = Some (Timing toScroll config (snap_callback (toScroll \<noteq> current)))\<rparr> \<and>
        fetchIndex (snapToScrollPosition P snapPoint e s) =
          (if toScroll = current then fetchIndex s
           else if toScroll = next then index + 1 else index - 1) \<and>
        ((\<forall>v w p ps. snapPoint v w (p # ps) \<in> set (p # ps)) \<longrightarrow>
           (toScroll = prev \<or> toScroll = current \<or> toScroll = next) \<and>
           (toScroll \<noteq> current \<longrightarrow>
              toScroll = next \<and> fetchIndex (snapToScrollPosition P snapPoint e s) = index + 1 \<or>
              toScroll = prev \<and> toScroll \<noteq> next \<and>
                fetchIndex (snapToScrollPosition P snapPoint e s) = index - 1))"
    using sc fi mem by auto
  then show ?thesis
    unfolding Let_def toScroll_def velocity_def next_def current_def prev_def index_def .
qed

theorem snapToScrollPosition_target_witness:
  "(\<forall>v w p ps. ex_snapPoint v w (p # ps) \<in> set (p # ps)) \<and>
   ex_snapPoint 800 1500 [400, 800, 1200] = 1200 \<and>
   scroll (snapToScrollPosition ex_props ex_snapPoint ex_fling ex_state) =
     \<lparr>val = 800, running = Some (Timing 1200 config (snap_callback True))\<rparr> \<and>
   fetchIndex ex_state = 2 \<and>
   fetchIndex (snapToScrollPosition ex_props ex_snapPoint ex_fling ex_state) = 3 \<and>
   ex_snapPoint 800 120 [400, 800, 1200] = 800 \<and>
   fetchIndex (snapToScrollPosition ex_props ex_snapPoint ex_pan ex_state) = 2"
proof -
  have c: "\<forall>v w p ps. ex_snapPoint v w (p # ps) \<in> set (p # ps)"
    by (simp only: ex_snapPoint_member) simp
  have v: "ex_snapPoint 800 1500 [400, 800, 1200] = 1200" "ex_snapPoint 800 120 [400, 800, 1200] = 800"
    by (simp_all add: ex_snapPoint_def)
  have a: "activeIndex ex_state = 2" "fetchIndex ex_state = 2" "val (scroll ex_state) = 800"
    "itemSize ex_props = 400" "length_prop ex_props = 5" "\<not> vertical ex_props"
    "velocityX ex_fling = 1500" "velocityX ex_pan = 120"
    by (simp_all add: ex_state_def ex_props_def ex_fling_def ex_pan_def)
  have k: "clamp 1 0 4 = 1" "clamp 3 0 4 = 3"
    by (simp_all add: clamp_def)
  show ?thesis
    using c snapToScrollPosition_target [where P = ex_props and snapPoint = ex_snapPoint
        and e = ex_fling and s = ex_state]
      snapToScrollPosition_target [where P = ex_props and snapPoint = ex_snapPoint
        and e = ex_pan and s = ex_state]
    by (simp add: Let_def a k v)
qed

section \<open>Double tap\<close>

text \<open>
  C6: on a double tap the target scale is minScale, which is 1, when the scale is at
  least 0.8 * maxScale, and maxScale otherwise; reset is called, animated, with that
  scale and with the result of pinchTransform clamped on each axis to the bounds
  boundsFn gives at the target scale, so the targets of the translation lie within
  those bounds.
\<close>

theorem doubleTap_bounded:
  "(let toScale = (if val (scale s) \<ge> 0.8 * maxScale P then minScale else maxScale P);
        (x, y) = pinchTransform toScale (val (scale s))
                   (tap_x e - rootSize_width s / 2, tap_y e - rootSize_height s / 2) (0, 0)
                   (val (translate_x s), val (translate_y s));
        (boundX, boundY) = boundsFn s toScale;
        toX = clamp x (- boundX) boundX;
        toY = clamp y (- boundY) boundY;
        s' = doubleTap_onEnd P pinchTransform e s
    in minScale = 1 \<and>
       s' = reset toX toY toScale True s \<and>
       running (translate_x s') = Some (Timing toX default_config no_callback) \<and>
       running (translate_y s') = Some (Timing toY default_config no_callback) \<and>
       running (scale s') = Some (Timing toScale default_config no_callback) \<and>
       running (detectorTranslate_x s') = Some (Timing toX default_config no_callback) \<and>
       running (detectorTranslate_y s') = Some (Timing toY default_config no_callback) \<and>
       running (detectorScale s') = Some (Timing toScale default_config no_callback) \<and>
       - boundX \<le> toX \<and> toX \<le> boundX \<and> - boundY \<le> toY \<and> toY \<le> boundY)"
proof -
  define toScale where "toScale = (if val (scale s) \<ge> 0.8 * maxScale P then minScale else maxScale P)"
  obtain x y where xy: "pinchTransform toScale (val (scale s))
                   (tap_x e - rootSize_width s / 2, tap_y e - rootSize_height s / 2) (0, 0)
                   (val (translate_x s), val (translate_y s)) = (x, y)"
    by (cases "pinchTransform toScale (val (scale s))
                   (tap_x e - rootSize_width s / 2, tap_y e - rootSize_height s / 2) (0, 0)
                   (val (translate_x s), val (translate_y s))")
  obtain bx "by" where b: "boundsFn s toScale = (bx, by)"
    by (cases "boundsFn s toScale")
  have nn: "0 \<le> bx" "0 \<le> by"
    using boundsFn_ge_0 [of s toScale] b by simp_all
  have rx: "- bx \<le> clamp x (- bx) bx \<and> clamp x (- bx) bx \<le> bx"
    using nn by (intro clamp_range) simp
  have ry: "- by \<le> clamp y (- by) by \<and> clamp y (- by) by \<le> by"
    using nn by (intro clamp_range) simp
  have dt: "doubleTap_onEnd P pinchTransform e s =
              reset (clamp x (- bx) bx) (clamp y (- by) by) toScale True s"
    using xy b by (simp add: doubleTap_onEnd_def Let_def toScale_def mult.commute)
  show ?thesis
    unfolding Let_def toScale_def [symmetric] xy b prod.case
    using rx ry by (simp add: dt reset_animated minScale_def)
qed

end
